theory Spec2Isabelle
  imports Main "HOL-Library.Multiset"
begin

section \<open>Payment holds: data model\<close>

text \<open>
  Identifiers (\<open>UUID\<close>) are natural numbers. A database timestamp (\<open>timestamptz\<close>) is an
  instant, an integer count of microseconds. A Python \<open>datetime\<close> parsed from a request is
  either timezone-aware (an instant) or naive (a wall-clock reading without offset): the
  field \<open>expiresAt: Optional[datetime]\<close> of the request body accepts both.
\<close>

type_synonym uuid = nat
type_synonym timestamp = int

datatype datetime = Aware timestamp | Naive timestamp

datatype hold_type = FRAUD_SUSPECT | INCORRECT_BENEFICIARY_DETAILS

datatype hold_status = ACTIVE | RELEASED | EXPIRED

text \<open>The \<open>status\<close> query parameter of the list operation.\<close>

datatype status_filter = FilterACTIVE | FilterRELEASED | FilterALL

text \<open>
  What a handler can raise. \<open>HTTPException\<close> carries the status code and the detail of the
  source; the other exceptions are not caught anywhere in the application and reach the
  caller as a generic server error (500).
\<close>

datatype exn =
    HTTPException nat string
  | TypeError
  | IntegrityError
  | PydanticValidationError

fun status_code :: "exn \<Rightarrow> nat" where
  "status_code (HTTPException c d) = c"
| "status_code TypeError = 500"
| "status_code IntegrityError = 500"
| "status_code PydanticValidationError = 500"

text \<open>The error taxonomy: 401, 403, 422, 404 and 409.\<close>

definition is_Unauthorized :: "exn \<Rightarrow> bool" where
  "is_Unauthorized e = (status_code e = 401)"

definition is_Forbidden :: "exn \<Rightarrow> bool" where
  "is_Forbidden e = (status_code e = 403)"

definition is_ValidationError :: "exn \<Rightarrow> bool" where
  "is_ValidationError e = (status_code e = 422)"

definition is_NotFound :: "exn \<Rightarrow> bool" where
  "is_NotFound e = (status_code e = 404)"

definition is_Conflict :: "exn \<Rightarrow> bool" where
  "is_Conflict e = (status_code e = 409)"

record Principal =
  sub :: string
  roles :: "string list"

record CreateHoldBody =
  body_type :: hold_type
  body_comment :: "string option"
  body_source :: "string option"
  body_expiresAt :: "datetime option"

record ReleaseBody =
  reason :: "string option"
  release_comment :: "string option"

text \<open>A row of the table \<open>payment_hold\<close>, with the column names of the queries.\<close>

record hold_row =
  hold_id :: uuid
  client_id :: uuid
  type :: hold_type
  status :: hold_status
  comment :: "string option"
  source :: "string option"
  created_at :: timestamp
  created_by :: string
  expires_at :: "timestamp option"
  released_at :: "timestamp option"
  released_by :: "string option"
  release_reason :: "string option"
  idempotency_key :: string

text \<open>The response model \<open>HoldModel\<close>.\<close>

record HoldModel =
  holdId :: uuid
  clientId :: uuid
  htype :: hold_type
  hstatus :: hold_status
  hcomment :: "string option"
  hsource :: "string option"
  createdAt :: timestamp
  createdBy :: string
  expiresAt :: "timestamp option"
  releasedAt :: "timestamp option"
  releasedBy :: "string option"
  releaseReason :: "string option"
  idempotencyKey :: string

definition row_to_hold :: "hold_row \<Rightarrow> HoldModel" where
  "row_to_hold m =
     \<lparr> holdId = hold_id m,
       clientId = client_id m,
       htype = type m,
       hstatus = status m,
       hcomment = comment m,
       hsource = source m,
       createdAt = created_at m,
       createdBy = created_by m,
       expiresAt = expires_at m,
       releasedAt = released_at m,
       releasedBy = released_by m,
       releaseReason = release_reason m,
       idempotencyKey = idempotency_key m \<rparr>"

text \<open>
  The datastore: the table \<open>client\<close> (its keys) and the table \<open>payment_hold\<close>, rows in
  storage order.
\<close>

record db =
  client :: "uuid list"
  payment_hold :: "hold_row list"

text \<open>
  What a request reads from its surroundings: the application clock (\<open>_now()\<close>), the
  database clock (SQL \<open>now()\<close>) and the identifier the database generates for a new row.
\<close>

record env =
  app_now :: timestamp
  db_now :: timestamp
  new_hold_id :: uuid

section \<open>Token verifier and role gate\<close>

text \<open>
  The claims of a decoded token, as far as \<open>get_principal\<close> reads them. The claim \<open>sub\<close>,
  when present, is given by its rendering under Python's \<open>str\<close>. The claim \<open>roles\<close>, when
  present, is either a list of strings or a value that the field \<open>roles: list[str]\<close> of
  \<open>Principal\<close> refuses.
\<close>

datatype roles_claim = RolesList "string list" | RolesInvalid

record jwt_payload =
  claim_sub :: "string option"
  claim_roles :: "roles_claim option"

text \<open>
  \<open>jwt.decode\<close> with the shared secret belongs to a library: it is a parameter, a partial
  map from the credentials of a bearer token to the payload. \<open>None\<close> stands for any
  \<open>PyJWTError\<close> (malformed token, bad signature, expired token). The token argument of
  \<open>get_principal\<close> is \<open>None\<close> when the request has no bearer token.
\<close>

type_synonym jwt_decode = "string \<Rightarrow> jwt_payload option"

definition get_principal :: "jwt_decode \<Rightarrow> string option \<Rightarrow> exn + Principal" where
  "get_principal decode token =
     (case token of
        None \<Rightarrow> Inl (HTTPException 401 ''Missing bearer token'')
      | Some credentials \<Rightarrow>
          (case decode credentials of
             None \<Rightarrow> Inl (HTTPException 401 ''Invalid token'')
           | Some payload \<Rightarrow>
               (case (case claim_roles payload of None \<Rightarrow> RolesList [] | Some v \<Rightarrow> v) of
                  RolesInvalid \<Rightarrow> Inl PydanticValidationError
                | RolesList rs \<Rightarrow>
                    Inr \<lparr> sub = (case claim_sub payload of None \<Rightarrow> ''unknown'' | Some s \<Rightarrow> s),
                          roles = rs \<rparr>)))"

text \<open>The checker that \<open>require_roles(*required)\<close> returns, applied to a principal.\<close>

definition require_roles :: "string list \<Rightarrow> Principal \<Rightarrow> exn + Principal" where
  "require_roles required pr =
     (if \<not> list_ex (\<lambda>r. r \<in> set (roles pr)) required
      then Inl (HTTPException 403 ''Forbidden: insufficient role'')
      else Inr pr)"

text \<open>
  \<open>Depends(require_roles(...))\<close>: the framework resolves \<open>get_principal\<close> first, then runs
  the checker, and only then calls the handler.
\<close>

definition depends_require_roles ::
  "string list \<Rightarrow> jwt_decode \<Rightarrow> string option \<Rightarrow> exn + Principal" where
  "depends_require_roles required decode token =
     (case get_principal decode token of
        Inl e \<Rightarrow> Inl e
      | Inr pr \<Rightarrow> require_roles required pr)"

section \<open>Hold repository\<close>

definition client_exists :: "db \<Rightarrow> uuid \<Rightarrow> bool" where
  "client_exists d cid = (cid \<in> set (client d))"

text \<open>\<open>SELECT * FROM payment_hold WHERE idempotency_key = :ik LIMIT 1\<close>, then \<open>first()\<close>.\<close>

definition find_by_idempotency_key :: "db \<Rightarrow> string \<Rightarrow> hold_row option" where
  "find_by_idempotency_key d ik = find (\<lambda>r. idempotency_key r = ik) (payment_hold d)"

text \<open>
  Modelled from the spec: the schema of \<open>payment_hold\<close> is not in the source. The table is
  keyed by \<open>hold_id\<close>, has a unique constraint on \<open>idempotency_key\<close> and a foreign key from
  \<open>client_id\<close> to \<open>client\<close>; an insert that breaks one of them raises an integrity error.
  \<open>hold_id\<close> is generated at creation, \<open>created_at\<close> is set at creation, and the three
  release columns, which the insert statement does not name, start as null.
\<close>

definition insert_hold ::
  "db \<Rightarrow> env \<Rightarrow> uuid \<Rightarrow> hold_type \<Rightarrow> string option \<Rightarrow> string option \<Rightarrow> string
     \<Rightarrow> timestamp option \<Rightarrow> string \<Rightarrow> exn + (hold_row \<times> db)" where
  "insert_hold d e cid ty cm src by exp ik =
     (let row = \<lparr> hold_id = new_hold_id e,
                   client_id = cid,
                   type = ty,
                   status = ACTIVE,
                   comment = cm,
                   source = src,
                   created_at = db_now e,
                   created_by = by,
                   expires_at = exp,
                   released_at = None,
                   released_by = None,
                   release_reason = None,
                   idempotency_key = ik \<rparr>
      in if new_hold_id e \<in> set (map hold_id (payment_hold d))
            \<or> ik \<in> set (map idempotency_key (payment_hold d))
            \<or> cid \<notin> set (client d)
         then Inl IntegrityError
         else Inr (row, d\<lparr>payment_hold := payment_hold d @ [row]\<rparr>))"

text \<open>
  \<open>ORDER BY created_at DESC\<close>: a stable insertion sort on the negated creation time. SQL
  leaves the order of rows with equal creation times open; the model keeps their storage
  order.
\<close>

definition order_by_created_at_desc :: "hold_row list \<Rightarrow> hold_row list" where
  "order_by_created_at_desc rows = sort_key (\<lambda>r. - created_at r) rows"

definition select_by_client :: "db \<Rightarrow> uuid \<Rightarrow> hold_row list" where
  "select_by_client d cid =
     order_by_created_at_desc (filter (\<lambda>r. client_id r = cid) (payment_hold d))"

definition select_by_client_status :: "db \<Rightarrow> uuid \<Rightarrow> hold_status \<Rightarrow> hold_row list" where
  "select_by_client_status d cid st =
     order_by_created_at_desc
       (filter (\<lambda>r. client_id r = cid \<and> status r = st) (payment_hold d))"

definition select_active_by_client :: "db \<Rightarrow> uuid \<Rightarrow> hold_row list" where
  "select_active_by_client d cid =
     filter (\<lambda>r. client_id r = cid \<and> status r = ACTIVE) (payment_hold d)"

definition find_one :: "db \<Rightarrow> uuid \<Rightarrow> uuid \<Rightarrow> hold_row option" where
  "find_one d cid hid = find (\<lambda>r. client_id r = cid \<and> hold_id r = hid) (payment_hold d)"

text \<open>
  \<open>UPDATE payment_hold SET status='RELEASED', released_at=now(), released_by=:by,
  release_reason=:reason WHERE hold_id = :hid RETURNING *\<close>: the new table and the
  returned rows.
\<close>

definition release_row :: "env \<Rightarrow> string \<Rightarrow> string option \<Rightarrow> hold_row \<Rightarrow> hold_row" where
  "release_row e by rsn r =
     r\<lparr> status := RELEASED,
        released_at := Some (db_now e),
        released_by := Some by,
        release_reason := rsn \<rparr>"

definition update_release ::
  "db \<Rightarrow> env \<Rightarrow> uuid \<Rightarrow> string \<Rightarrow> string option \<Rightarrow> hold_row list \<times> db" where
  "update_release d e hid by rsn =
     (let rows = map (\<lambda>r. if hold_id r = hid then release_row e by rsn r else r)
                     (payment_hold d)
      in (filter (\<lambda>r. hold_id r = hid) rows, d\<lparr>payment_hold := rows\<rparr>))"

section \<open>Hold lifecycle service\<close>

text \<open>
  \<open>if body.expiresAt and body.expiresAt <= _now()\<close>: a \<open>datetime\<close> is always truthy, so
  the first conjunct only asks whether the field is present. \<open>_now()\<close> is timezone-aware,
  and Python's ordering comparison between a naive and an aware \<open>datetime\<close> raises
  \<open>TypeError\<close>. The result is the instant to store.
\<close>

definition check_expiresAt :: "timestamp \<Rightarrow> datetime option \<Rightarrow> exn + timestamp option" where
  "check_expiresAt now x =
     (case x of
        None \<Rightarrow> Inr None
      | Some (Naive w) \<Rightarrow> Inl TypeError
      | Some (Aware t) \<Rightarrow>
          (if t \<le> now then Inl (HTTPException 422 ''expiresAt must be in future'')
           else Inr (Some t)))"

text \<open>
  The insert statement of \<open>create_hold\<close>, the commit and the returned hold. An exception
  leaves the session without a commit.
\<close>

definition create_hold_insert ::
  "db \<Rightarrow> env \<Rightarrow> uuid \<Rightarrow> CreateHoldBody \<Rightarrow> timestamp option \<Rightarrow> string \<Rightarrow> Principal
     \<Rightarrow> (exn + HoldModel) \<times> db" where
  "create_hold_insert d e cid body exp ik pr =
     (case insert_hold d e cid (body_type body) (body_comment body) (body_source body)
             (sub pr) exp ik of
        Inl x \<Rightarrow> (Inl x, d)
      | Inr (row, d') \<Rightarrow> (Inr (row_to_hold row), d'))"

definition create_hold ::
  "db \<Rightarrow> env \<Rightarrow> uuid \<Rightarrow> CreateHoldBody \<Rightarrow> string \<Rightarrow> Principal \<Rightarrow> (exn + HoldModel) \<times> db" where
  "create_hold d e cid body ik pr =
     (case check_expiresAt (app_now e) (body_expiresAt body) of
        Inl x \<Rightarrow> (Inl x, d)
      | Inr exp \<Rightarrow>
          (if \<not> client_exists d cid
           then (Inl (HTTPException 422 ''Client does not exist''), d)
           else (case find_by_idempotency_key d ik of
                   Some row \<Rightarrow> (Inr (row_to_hold row), d)
                 | None \<Rightarrow> create_hold_insert d e cid body exp ik pr)))"

text \<open>
  The same handler when other sessions commit the rows \<open>others\<close> after its idempotency
  lookup and before its insert: the two selects read the datastore \<open>d\<close>, the insert meets
  the datastore with the rows of the other sessions.
\<close>

definition create_hold_raced ::
  "db \<Rightarrow> hold_row list \<Rightarrow> env \<Rightarrow> uuid \<Rightarrow> CreateHoldBody \<Rightarrow> string \<Rightarrow> Principal
     \<Rightarrow> (exn + HoldModel) \<times> db" where
  "create_hold_raced d others e cid body ik pr =
     (case check_expiresAt (app_now e) (body_expiresAt body) of
        Inl x \<Rightarrow> (Inl x, d)
      | Inr exp \<Rightarrow>
          (if \<not> client_exists d cid
           then (Inl (HTTPException 422 ''Client does not exist''), d)
           else (case find_by_idempotency_key d ik of
                   Some row \<Rightarrow> (Inr (row_to_hold row), d)
                 | None \<Rightarrow>
                     create_hold_insert (d\<lparr>payment_hold := payment_hold d @ others\<rparr>)
                       e cid body exp ik pr)))"

record ListResponse =
  items :: "HoldModel list"

definition list_holds :: "db \<Rightarrow> uuid \<Rightarrow> status_filter \<Rightarrow> ListResponse" where
  "list_holds d cid st =
     (let res = (case st of
                   FilterALL \<Rightarrow> select_by_client d cid
                 | FilterACTIVE \<Rightarrow> select_by_client_status d cid ACTIVE
                 | FilterRELEASED \<Rightarrow> select_by_client_status d cid RELEASED)
      in \<lparr> items = map row_to_hold res \<rparr>)"

datatype check_kind = NONE | FRAUD | NON_FRAUD

record CheckResponse =
  blocked :: bool
  kind :: check_kind
  activeHolds :: "HoldModel list"

definition check_hold :: "db \<Rightarrow> uuid \<Rightarrow> CheckResponse" where
  "check_hold d cid =
     (let rows = select_active_by_client d cid;
          blocked = length rows > 0;
          kind = (if blocked
                  then (if FRAUD_SUSPECT \<in> set (map type rows) then FRAUD else NON_FRAUD)
                  else NONE)
      in \<lparr> blocked = blocked, kind = kind, activeHolds = map row_to_hold rows \<rparr>)"

definition get_hold :: "db \<Rightarrow> uuid \<Rightarrow> uuid \<Rightarrow> exn + HoldModel" where
  "get_hold d cid hid =
     (case find_one d cid hid of
        None \<Rightarrow> Inl (HTTPException 404 ''Not found'')
      | Some row \<Rightarrow> Inr (row_to_hold row))"

text \<open>
  \<open>release_hold\<close>: the body is optional, and only its \<open>reason\<close> is read. The commit comes
  before the returned row is converted; converting no row at all would raise
  \<open>TypeError\<close>.
\<close>

definition release_hold ::
  "db \<Rightarrow> env \<Rightarrow> uuid \<Rightarrow> uuid \<Rightarrow> ReleaseBody option \<Rightarrow> Principal \<Rightarrow> (exn + HoldModel) \<times> db" where
  "release_hold d e cid hid body pr =
     (case find_one d cid hid of
        None \<Rightarrow> (Inl (HTTPException 404 ''Not found''), d)
      | Some row \<Rightarrow>
          (if status row \<noteq> ACTIVE
           then (Inl (HTTPException 409 ''Already closed''), d)
           else (case update_release d e hid (sub pr)
                        (case body of None \<Rightarrow> None | Some b \<Rightarrow> reason b) of
                   ([], d') \<Rightarrow> (Inl TypeError, d')
                 | (r # rs, d') \<Rightarrow> (Inr (row_to_hold r), d'))))"

section \<open>Routes: the role gate in front of each handler\<close>

definition create_hold_route ::
  "jwt_decode \<Rightarrow> string option \<Rightarrow> db \<Rightarrow> env \<Rightarrow> uuid \<Rightarrow> CreateHoldBody \<Rightarrow> string
     \<Rightarrow> (exn + HoldModel) \<times> db" where
  "create_hold_route decode token d e cid body ik =
     (case depends_require_roles [''ops.block:create''] decode token of
        Inl x \<Rightarrow> (Inl x, d)
      | Inr pr \<Rightarrow> create_hold d e cid body ik pr)"

definition list_holds_route ::
  "jwt_decode \<Rightarrow> string option \<Rightarrow> db \<Rightarrow> uuid \<Rightarrow> status_filter \<Rightarrow> exn + ListResponse" where
  "list_holds_route decode token d cid st =
     (case depends_require_roles [''ops.block:read''] decode token of
        Inl x \<Rightarrow> Inl x
      | Inr pr \<Rightarrow> Inr (list_holds d cid st))"

definition check_hold_route ::
  "jwt_decode \<Rightarrow> string option \<Rightarrow> db \<Rightarrow> uuid \<Rightarrow> exn + CheckResponse" where
  "check_hold_route decode token d cid =
     (case depends_require_roles [''ops.block:read''] decode token of
        Inl x \<Rightarrow> Inl x
      | Inr pr \<Rightarrow> Inr (check_hold d cid))"

definition get_hold_route ::
  "jwt_decode \<Rightarrow> string option \<Rightarrow> db \<Rightarrow> uuid \<Rightarrow> uuid \<Rightarrow> exn + HoldModel" where
  "get_hold_route decode token d cid hid =
     (case depends_require_roles [''ops.block:read''] decode token of
        Inl x \<Rightarrow> Inl x
      | Inr pr \<Rightarrow> get_hold d cid hid)"

definition release_hold_route ::
  "jwt_decode \<Rightarrow> string option \<Rightarrow> db \<Rightarrow> env \<Rightarrow> uuid \<Rightarrow> uuid \<Rightarrow> ReleaseBody option
     \<Rightarrow> (exn + HoldModel) \<times> db" where
  "release_hold_route decode token d e cid hid body =
     (case depends_require_roles [''ops.block:release''] decode token of
        Inl x \<Rightarrow> (Inl x, d)
      | Inr pr \<Rightarrow> release_hold d e cid hid body pr)"

section \<open>Reachable datastores\<close>

text \<open>
  The datastores that the two mutating operations produce from an empty \<open>payment_hold\<close>
  table. The \<open>client\<close> table is maintained outside the service and may change between
  requests.
\<close>

inductive reachable :: "db \<Rightarrow> bool" where
  reachable_init: "reachable \<lparr> client = cs, payment_hold = [] \<rparr>"
| reachable_clients: "reachable d \<Longrightarrow> reachable (d\<lparr>client := cs\<rparr>)"
| reachable_create: "reachable d \<Longrightarrow> reachable (snd (create_hold d e cid body ik pr))"
| reachable_release: "reachable d \<Longrightarrow> reachable (snd (release_hold d e cid hid body pr))"

section \<open>Datastore constraints and invariants\<close>

text \<open>The primary key on \<open>hold_id\<close> and the unique constraint on \<open>idempotency_key\<close>.\<close>

definition pk_unique :: "db \<Rightarrow> bool" where
  "pk_unique d = distinct (map hold_id (payment_hold d))"

definition ik_unique :: "db \<Rightarrow> bool" where
  "ik_unique d = distinct (map idempotency_key (payment_hold d))"

text \<open>
  The release fields of a hold: \<open>releasedAt\<close> and \<open>releasedBy\<close> are set exactly on a released
  hold, \<open>releaseReason\<close> is set only on a released hold, and no hold is \<open>EXPIRED\<close>.
\<close>

definition release_fields_ok :: "HoldModel \<Rightarrow> bool" where
  "release_fields_ok h =
     ((releasedAt h \<noteq> None) = (hstatus h = RELEASED)
      \<and> (releasedBy h \<noteq> None) = (hstatus h = RELEASED)
      \<and> (releaseReason h \<noteq> None \<longrightarrow> hstatus h = RELEASED)
      \<and> hstatus h \<noteq> EXPIRED)"

definition holds_ok :: "db \<Rightarrow> bool" where
  "holds_ok d = (\<forall>r\<in>set (payment_hold d). release_fields_ok (row_to_hold r))"

section \<open>Sample data\<close>

definition ops_principal :: Principal where
  "ops_principal =
     \<lparr> sub = ''user:ops1'',
       roles = [''ops.block:read'', ''ops.block:create'', ''ops.block:release''] \<rparr>"

definition reader_principal :: Principal where
  "reader_principal = \<lparr> sub = ''user:ro'', roles = [''ops.block:read''] \<rparr>"

definition bare_payload :: jwt_payload where
  "bare_payload = \<lparr> claim_sub = None, claim_roles = None \<rparr>"

definition reader_payload :: jwt_payload where
  "reader_payload =
     \<lparr> claim_sub = Some ''user:ro'', claim_roles = Some (RolesList [''ops.block:read'']) \<rparr>"

definition sample_tokens :: jwt_decode where
  "sample_tokens = [''tok-bare'' \<mapsto> bare_payload, ''tok-read'' \<mapsto> reader_payload]"

definition fraud_row :: hold_row where
  "fraud_row =
     \<lparr> hold_id = 1, client_id = 10, type = FRAUD_SUSPECT, status = ACTIVE,
       comment = Some ''chargeback'', source = None, created_at = 50,
       created_by = ''user:ops1'', expires_at = None, released_at = None,
       released_by = None, release_reason = None, idempotency_key = ''K1'' \<rparr>"

definition details_row :: hold_row where
  "details_row =
     \<lparr> hold_id = 2, client_id = 10, type = INCORRECT_BENEFICIARY_DETAILS, status = RELEASED,
       comment = None, source = Some ''crm'', created_at = 70,
       created_by = ''user:ops1'', expires_at = None, released_at = Some 80,
       released_by = Some ''user:ops1'', release_reason = Some ''fixed'',
       idempotency_key = ''K2'' \<rparr>"

definition empty_db :: db where
  "empty_db = \<lparr> client = [10, 11], payment_hold = [] \<rparr>"

definition sample_db :: db where
  "sample_db = \<lparr> client = [10, 11], payment_hold = [fraud_row, details_row] \<rparr>"

definition sample_env :: env where
  "sample_env = \<lparr> app_now = 100, db_now = 101, new_hold_id = 3 \<rparr>"

definition later_env :: env where
  "later_env = \<lparr> app_now = 150, db_now = 151, new_hold_id = 4 \<rparr>"

definition sample_body :: CreateHoldBody where
  "sample_body =
     \<lparr> body_type = INCORRECT_BENEFICIARY_DETAILS, body_comment = None,
       body_source = Some ''crm'', body_expiresAt = Some (Aware 200) \<rparr>"

definition past_body :: CreateHoldBody where
  "past_body = sample_body\<lparr>body_expiresAt := Some (Aware 90)\<rparr>"

definition naive_body :: CreateHoldBody where
  "naive_body = sample_body\<lparr>body_expiresAt := Some (Naive 90)\<rparr>"

definition sample_release :: ReleaseBody where
  "sample_release = \<lparr> reason = Some ''cleared'', release_comment = Some ''call #7'' \<rparr>"

text \<open>The hold that \<open>create_hold\<close> inserts into \<open>empty_db\<close>, and that hold after a release.\<close>

definition created_row :: hold_row where
  "created_row =
     \<lparr> hold_id = 3, client_id = 10, type = INCORRECT_BENEFICIARY_DETAILS, status = ACTIVE,
       comment = None, source = Some ''crm'', created_at = 101,
       created_by = ''user:ops1'', expires_at = Some 200, released_at = None,
       released_by = None, release_reason = None, idempotency_key = ''K3'' \<rparr>"

definition created_db :: db where
  "created_db = snd (create_hold empty_db sample_env 10 sample_body ''K3'' ops_principal)"

definition released_db :: db where
  "released_db =
     snd (release_hold created_db later_env 10 3 (Some sample_release) ops_principal)"

definition released_row :: hold_row where
  "released_row =
     created_row\<lparr> status := RELEASED, released_at := Some 151,
                   released_by := Some ''user:ops1'', release_reason := Some ''cleared'' \<rparr>"

definition released_without_reason :: HoldModel where
  "released_without_reason =
     \<lparr> holdId = 3, clientId = 10, htype = INCORRECT_BENEFICIARY_DETAILS, hstatus = RELEASED,
       hcomment = None, hsource = Some ''crm'', createdAt = 101,
       createdBy = ''user:ops1'', expiresAt = Some 200, releasedAt = Some 151,
       releasedBy = Some ''user:ops1'', releaseReason = None, idempotencyKey = ''K3'' \<rparr>"

section \<open>Auxiliary facts\<close>

lemmas sample_defs = ops_principal_def reader_principal_def bare_payload_def
  reader_payload_def sample_tokens_def fraud_row_def details_row_def empty_db_def
  sample_db_def sample_env_def later_env_def sample_body_def past_body_def naive_body_def
  sample_release_def created_row_def released_row_def released_without_reason_def

subsection \<open>Lookups under a unique key\<close>

lemma distinct_key_eq:
  "distinct (map f xs) \<Longrightarrow> x \<in> set xs \<Longrightarrow> r \<in> set xs \<Longrightarrow> f x = f r \<Longrightarrow> x = r"
  by (meson distinct_map inj_onD)

lemma find_distinct_key:
  "distinct (map f xs) \<Longrightarrow> r \<in> set xs \<Longrightarrow> P r
     \<Longrightarrow> find (\<lambda>x. P x \<and> f x = f r) xs = Some r"
  by (induction xs) (auto simp: image_iff)

lemma filter_key_distinct:
  "distinct (map f xs) \<Longrightarrow> r \<in> set xs \<Longrightarrow> filter (\<lambda>x. f x = f r) xs = [r]"
proof (induction xs)
  case Nil
  then show ?case by simp
next
  case (Cons a xs)
  show ?case
  proof (cases "a = r")
    case True
    have "\<forall>x\<in>set xs. f x \<noteq> f r"
      using Cons.prems(1) True by (auto simp: image_iff)
    then have "filter (\<lambda>x. f x = f r) xs = []"
      by (simp add: filter_empty_conv)
    then show ?thesis using True by simp
  next
    case False
    then have in_tail: "r \<in> set xs" using Cons.prems(2) by simp
    moreover have "f a \<noteq> f r"
      using Cons.prems(1) in_tail by (auto simp: image_iff)
    ultimately show ?thesis using Cons by simp
  qed
qed

lemma map_upd_distinct:
  assumes "distinct (map f xs)" and "r \<in> set xs"
  shows "map (\<lambda>x. if f x = f r then g x else x) xs = map (\<lambda>x. if x = r then g r else x) xs"
proof (rule map_cong[OF refl])
  fix x assume "x \<in> set xs"
  then show "(if f x = f r then g x else x) = (if x = r then g r else x)"
    using distinct_key_eq[OF assms(1) _ assms(2)] by auto
qed

lemma filter_map_upd_distinct:
  assumes "distinct (map f xs)" and "r \<in> set xs" and "f (g r) = f r"
  shows "filter (\<lambda>x. f x = f r) (map (\<lambda>x. if f x = f r then g x else x) xs) = [g r]"
proof -
  have "filter (\<lambda>x. f x = f r) (map (\<lambda>x. if x = r then g r else x) xs)
          = map (\<lambda>x. if x = r then g r else x) (filter (\<lambda>x. f x = f r) xs)"
    using assms(3) by (induction xs) auto
  also have "\<dots> = [g r]"
    by (simp add: filter_key_distinct[OF assms(1,2)])
  finally show ?thesis
    by (simp only: map_upd_distinct[OF assms(1,2), of g])
qed

lemma find_by_idempotency_key_unique:
  assumes "ik_unique d" and "row \<in> set (payment_hold d)" and "idempotency_key row = ik"
  shows "find_by_idempotency_key d ik = Some row"
  using assms find_distinct_key[of idempotency_key "payment_hold d" row "\<lambda>r. True"]
  by (auto simp: find_by_idempotency_key_def ik_unique_def)

lemma find_one_pk:
  assumes "pk_unique d" and "row \<in> set (payment_hold d)"
    and "client_id row = cid" and "hold_id row = hid"
  shows "find_one d cid hid = Some row"
  using assms find_distinct_key[of hold_id "payment_hold d" row "\<lambda>r. client_id r = cid"]
  by (auto simp: find_one_def pk_unique_def)

lemma find_one_None:
  "find_one d cid hid = None
     \<longleftrightarrow> (\<forall>r\<in>set (payment_hold d). \<not> (client_id r = cid \<and> hold_id r = hid))"
  by (auto simp: find_one_def find_None_iff)

subsection \<open>The create operation\<close>

lemma check_expiresAt_Inr:
  "check_expiresAt now x = Inr exp \<longleftrightarrow>
     (x = None \<and> exp = None) \<or> (\<exists>t. x = Some (Aware t) \<and> now < t \<and> exp = Some t)"
  by (auto simp: check_expiresAt_def split: option.splits datetime.splits)

lemma create_hold_replay:
  assumes "body_expiresAt body = None
             \<or> (\<exists>t. body_expiresAt body = Some (Aware t) \<and> app_now e < t)"
    and "client_exists d cid"
    and "find_by_idempotency_key d ik = Some row"
  shows "create_hold d e cid body ik pr = (Inr (row_to_hold row), d)"
  using assms
  by (auto simp: create_hold_def check_expiresAt_def split: option.splits datetime.splits)

text \<open>
  With a timezone-aware or absent \<open>expiresAt\<close>, the handler answers 422 exactly when the
  instant is not in the future or the client is unknown.
\<close>

lemma create_hold_validation_aware:
  assumes "body_expiresAt body = None \<or> (\<exists>t. body_expiresAt body = Some (Aware t))"
  shows "(\<exists>x. fst (create_hold d e cid body ik pr) = Inl x \<and> is_ValidationError x)
           \<longleftrightarrow> (\<exists>t. body_expiresAt body = Some (Aware t) \<and> t \<le> app_now e)
                 \<or> \<not> client_exists d cid"
proof (cases "check_expiresAt (app_now e) (body_expiresAt body)")
  case (Inl x)
  then have "x = HTTPException 422 ''expiresAt must be in future''
      \<and> (\<exists>t. body_expiresAt body = Some (Aware t) \<and> t \<le> app_now e)"
    using assms by (auto simp: check_expiresAt_def split: if_splits)
  then show ?thesis using Inl
    by (simp add: create_hold_def is_ValidationError_def)
next
  case (Inr exp)
  then have fresh: "\<not> (\<exists>t. body_expiresAt body = Some (Aware t) \<and> t \<le> app_now e)"
    by (auto simp: check_expiresAt_Inr)
  show ?thesis
  proof (cases "client_exists d cid")
    case False
    then show ?thesis using Inr
      by (simp add: create_hold_def is_ValidationError_def)
  next
    case True
    have "\<not> (\<exists>x. fst (create_hold d e cid body ik pr) = Inl x \<and> is_ValidationError x)"
      using Inr True
      by (auto simp: create_hold_def create_hold_insert_def insert_hold_def
            is_ValidationError_def Let_def split: option.splits if_splits)
    then show ?thesis using True fresh by blast
  qed
qed

lemma create_hold_db:
  "snd (create_hold d e cid body ik pr) = d
   \<or> (\<exists>row. snd (create_hold d e cid body ik pr) = d\<lparr>payment_hold := payment_hold d @ [row]\<rparr>
        \<and> fst (create_hold d e cid body ik pr) = Inr (row_to_hold row)
        \<and> status row = ACTIVE \<and> released_at row = None \<and> released_by row = None
        \<and> release_reason row = None
        \<and> hold_id row \<notin> set (map hold_id (payment_hold d))
        \<and> idempotency_key row \<notin> set (map idempotency_key (payment_hold d)))"
  by (auto simp: create_hold_def create_hold_insert_def insert_hold_def Let_def
           split: sum.splits option.splits if_splits)

lemma find_Some_set: "find P xs = Some x \<Longrightarrow> x \<in> set xs \<and> P x"
  by (induction xs) (auto split: if_splits)

lemma create_hold_returns_row:
  assumes "create_hold d e cid body ik pr = (Inr h, d')"
  shows "\<exists>r\<in>set (payment_hold d'). h = row_to_hold r"
proof (cases "find_by_idempotency_key d ik")
  case None
  then show ?thesis using assms
    by (auto simp: create_hold_def create_hold_insert_def insert_hold_def Let_def
          split: sum.splits if_splits)
next
  case (Some row)
  then have "row \<in> set (payment_hold d)"
    using find_Some_set[of "\<lambda>r. idempotency_key r = ik" "payment_hold d" row]
    by (simp add: find_by_idempotency_key_def)
  then show ?thesis using assms Some
    by (auto simp: create_hold_def split: sum.splits if_splits)
qed

subsection \<open>The release operation\<close>

lemma update_release_pk:
  assumes "pk_unique d" and "row \<in> set (payment_hold d)" and "hold_id row = hid"
  shows "update_release d e hid by rsn =
           ([release_row e by rsn row],
            d\<lparr>payment_hold :=
                map (\<lambda>r. if r = row then release_row e by rsn row else r) (payment_hold d)\<rparr>)"
proof -
  have keeps_id: "hold_id (release_row e by rsn row) = hold_id row"
    by (simp add: release_row_def)
  show ?thesis
    using assms
      filter_map_upd_distinct[of hold_id "payment_hold d" row "release_row e by rsn",
        OF _ _ keeps_id]
      map_upd_distinct[of hold_id "payment_hold d" row "release_row e by rsn"]
    by (simp add: update_release_def pk_unique_def Let_def)
qed

lemma release_hold_ok:
  assumes "pk_unique d" and "row \<in> set (payment_hold d)"
    and "client_id row = cid" and "hold_id row = hid" and "status row = ACTIVE"
  shows "release_hold d e cid hid body pr =
     (Inr (row_to_hold
             (release_row e (sub pr) (case body of None \<Rightarrow> None | Some b \<Rightarrow> reason b) row)),
      d\<lparr>payment_hold :=
          map (\<lambda>r. if r = row
                   then release_row e (sub pr)
                          (case body of None \<Rightarrow> None | Some b \<Rightarrow> reason b) row
                   else r) (payment_hold d)\<rparr>)"
  using find_one_pk[OF assms(1-4)] update_release_pk[OF assms(1,2,4)] assms(5)
  by (simp add: release_hold_def)

lemma release_hold_conflict:
  assumes "pk_unique d" and "row \<in> set (payment_hold d)"
    and "client_id row = cid" and "hold_id row = hid" and "status row \<noteq> ACTIVE"
  shows "release_hold d e cid hid body pr = (Inl (HTTPException 409 ''Already closed''), d)"
  using find_one_pk[OF assms(1-4)] assms(5)
  by (simp add: release_hold_def)

lemma release_hold_not_found:
  assumes "\<forall>r\<in>set (payment_hold d). \<not> (client_id r = cid \<and> hold_id r = hid)"
  shows "release_hold d e cid hid body pr = (Inl (HTTPException 404 ''Not found''), d)"
  using assms find_one_None[of d cid hid] by (simp add: release_hold_def)

lemma release_hold_comment:
  "release_hold d e cid hid (Some (b\<lparr>release_comment := c\<rparr>)) pr
     = release_hold d e cid hid (Some b) pr"
  by (auto simp: release_hold_def split: option.splits)

lemma release_hold_db:
  "snd (release_hold d e cid hid body pr) = d
   \<or> (\<exists>by rsn. snd (release_hold d e cid hid body pr)
         = d\<lparr>payment_hold :=
               map (\<lambda>r. if hold_id r = hid then release_row e by rsn r else r)
                 (payment_hold d)\<rparr>)"
  by (auto simp: release_hold_def update_release_def Let_def split: option.splits list.splits)

lemma release_hold_returns_row:
  assumes "release_hold d e cid hid body pr = (Inr h, d')"
  shows "\<exists>r\<in>set (payment_hold d'). h = row_to_hold r"
proof -
  obtain rows where upd: "update_release d e hid (sub pr)
      (case body of None \<Rightarrow> None | Some b \<Rightarrow> reason b) = (rows, d')"
    and h: "\<exists>r rs. rows = r # rs \<and> h = row_to_hold r"
    using assms
    by (auto simp: release_hold_def split: option.splits if_splits prod.splits list.splits)
  have "set rows \<subseteq> set (payment_hold d')"
    using upd by (auto simp: update_release_def Let_def)
  then show ?thesis using h by auto
qed

subsection \<open>Invariants of the reachable datastores\<close>

lemma release_row_ok: "release_fields_ok (row_to_hold (release_row e by rsn r))"
  by (simp add: release_fields_ok_def row_to_hold_def release_row_def)

lemma holds_ok_create: "holds_ok d \<Longrightarrow> holds_ok (snd (create_hold d e cid body ik pr))"
  using create_hold_db[of d e cid body ik pr]
  by (auto simp: holds_ok_def release_fields_ok_def row_to_hold_def)

lemma holds_ok_release: "holds_ok d \<Longrightarrow> holds_ok (snd (release_hold d e cid hid body pr))"
  using release_hold_db[of d e cid hid body pr] release_row_ok
  by (auto simp: holds_ok_def)

lemma reachable_holds_ok: "reachable d \<Longrightarrow> holds_ok d"
proof (induction rule: reachable.induct)
  case (reachable_init cs)
  show ?case by (simp add: holds_ok_def)
next
  case (reachable_clients d cs)
  then show ?case by (simp add: holds_ok_def)
next
  case (reachable_create d e cid body ik pr)
  then show ?case by (simp add: holds_ok_create)
next
  case (reachable_release d e cid hid body pr)
  then show ?case by (simp add: holds_ok_release)
qed

lemma map_hold_id_release:
  "map hold_id (map (\<lambda>r. if hold_id r = hid then release_row e by rsn r else r) rows)
     = map hold_id rows"
  by (induction rows) (auto simp: release_row_def)

lemma map_idempotency_key_release:
  "map idempotency_key (map (\<lambda>r. if hold_id r = hid then release_row e by rsn r else r) rows)
     = map idempotency_key rows"
  by (induction rows) (auto simp: release_row_def)

text \<open>
  The two uniqueness constraints hold in every reachable datastore, so the theorems
  below that assume them apply to all of them.
\<close>

lemma reachable_unique: "reachable d \<Longrightarrow> pk_unique d \<and> ik_unique d"
proof (induction rule: reachable.induct)
  case (reachable_init cs)
  show ?case by (simp add: pk_unique_def ik_unique_def)
next
  case (reachable_clients d cs)
  then show ?case by (simp add: pk_unique_def ik_unique_def)
next
  case (reachable_create d e cid body ik pr)
  then show ?case using create_hold_db[of d e cid body ik pr]
    by (auto simp: pk_unique_def ik_unique_def)
next
  case (reachable_release d e cid hid body pr)
  then show ?case using release_hold_db[of d e cid hid body pr]
    by (auto simp: pk_unique_def ik_unique_def map_hold_id_release
          map_idempotency_key_release simp del: map_map)
qed

subsection \<open>Listing and checking\<close>

lemma order_by_created_at_desc_mset: "mset (order_by_created_at_desc rows) = mset rows"
  by (simp add: order_by_created_at_desc_def)

lemma order_by_created_at_desc_sorted:
  "sorted_wrt (\<lambda>a b. created_at b \<le> created_at a) (order_by_created_at_desc rows)"
proof -
  have "sorted (map (\<lambda>r. - created_at r) (order_by_created_at_desc rows))"
    by (simp add: order_by_created_at_desc_def)
  then show ?thesis by (simp add: sorted_map)
qed

lemma items_sorted:
  "sorted_wrt (\<lambda>a b. createdAt b \<le> createdAt a)
     (map row_to_hold (order_by_created_at_desc rows))"
  using order_by_created_at_desc_sorted[of rows]
  by (simp add: sorted_wrt_map row_to_hold_def)

subsection \<open>Evaluation of the samples\<close>

lemma created_db_eval:
  "create_hold empty_db sample_env 10 sample_body ''K3'' ops_principal
     = (Inr (row_to_hold created_row), empty_db\<lparr>payment_hold := [created_row]\<rparr>)"
  by (simp add: create_hold_def check_expiresAt_def client_exists_def
        find_by_idempotency_key_def create_hold_insert_def insert_hold_def Let_def sample_defs)

lemma created_db_rows: "created_db = empty_db\<lparr>payment_hold := [created_row]\<rparr>"
  by (simp add: created_db_def created_db_eval)

lemma released_db_eval:
  "release_hold created_db later_env 10 3 (Some sample_release) ops_principal
     = (Inr (row_to_hold released_row), empty_db\<lparr>payment_hold := [released_row]\<rparr>)"
  by (simp add: created_db_rows release_hold_def find_one_def update_release_def
        release_row_def Let_def sample_defs)

lemma released_db_rows: "released_db = empty_db\<lparr>payment_hold := [released_row]\<rparr>"
  by (simp add: released_db_def released_db_eval)

lemma released_db_reachable: "reachable released_db"
  unfolding released_db_def created_db_def empty_db_def
  by (intro reachable.intros)

section \<open>Claims\<close>

subsection \<open>C1: idempotent replay\<close>

text \<open>
  C1, as stated: every create request whose idempotency key matches an existing row gets
  that row back. The handler validates first, so a replay whose \<open>expiresAt\<close> is not in the
  future is answered 422 although the row with its key exists.
\<close>

theorem create_hold_replay_past_expiry_rejected:
  "fraud_row \<in> set (payment_hold sample_db)
   \<and> idempotency_key fraud_row = ''K1''
   \<and> create_hold sample_db sample_env 10 past_body ''K1'' ops_principal
       = (Inl (HTTPException 422 ''expiresAt must be in future''), sample_db)"
  by (simp add: create_hold_def check_expiresAt_def sample_defs)

text \<open>
  C1, amended: for every create request that passes validation (\<open>expiresAt\<close> absent or an
  instant strictly in the future, and an existing client) and whose idempotency key
  matches an existing row, \<open>create_hold\<close> returns that row unchanged and leaves the
  datastore as it was, whatever the type, comment, source, expiry and principal of the
  request are.
\<close>

theorem create_hold_idempotent_replay:
  assumes "ik_unique d"
    and "row \<in> set (payment_hold d)"
    and "idempotency_key row = ik"
    and "body_expiresAt body = None
           \<or> (\<exists>t. body_expiresAt body = Some (Aware t) \<and> app_now e < t)"
    and "client_exists d cid"
  shows "create_hold d e cid body ik pr = (Inr (row_to_hold row), d)"
  using create_hold_replay[OF assms(4,5) find_by_idempotency_key_unique[OF assms(1-3)]] .

theorem create_hold_idempotent_replay_witness:
  "ik_unique sample_db
   \<and> fraud_row \<in> set (payment_hold sample_db)
   \<and> idempotency_key fraud_row = ''K1''
   \<and> body_expiresAt sample_body = Some (Aware 200)
   \<and> app_now sample_env < 200
   \<and> client_exists sample_db 10
   \<and> create_hold sample_db sample_env 10 sample_body ''K1'' ops_principal
       = (Inr (row_to_hold fraud_row), sample_db)"
proof -
  have h1: "ik_unique sample_db" by (simp add: ik_unique_def sample_defs)
  have h2: "fraud_row \<in> set (payment_hold sample_db)" by (simp add: sample_defs)
  have h3: "idempotency_key fraud_row = ''K1''" by (simp add: sample_defs)
  have h4: "body_expiresAt sample_body = None
      \<or> (\<exists>t. body_expiresAt sample_body = Some (Aware t) \<and> app_now sample_env < t)"
    by (simp add: sample_defs)
  have h5: "client_exists sample_db 10" by (simp add: client_exists_def sample_defs)
  show ?thesis
    using create_hold_idempotent_replay[OF h1 h2 h3 h4 h5, of ops_principal] h1 h2 h3 h5
    by (simp add: sample_defs)
qed

subsection \<open>C2: a lost insertion race\<close>

text \<open>
  C2, as stated: a uniqueness violation of the insert is resolved by reading the row
  again. The handler has no such path: when another session commits \<open>fraud_row\<close> with
  the key \<open>K1\<close> between the lookup and the insert, the integrity error reaches the
  caller, although the row could be read by its key.
\<close>

theorem create_hold_raced_surfaces_violation:
  "create_hold_raced empty_db [fraud_row] sample_env 10 sample_body ''K1'' ops_principal
     = (Inl IntegrityError, empty_db\<lparr>payment_hold := [fraud_row]\<rparr>)
   \<and> find_by_idempotency_key (empty_db\<lparr>payment_hold := [fraud_row]\<rparr>) ''K1'' = Some fraud_row
   \<and> status_code IntegrityError = 500"
  by (simp add: create_hold_raced_def check_expiresAt_def client_exists_def
        find_by_idempotency_key_def create_hold_insert_def insert_hold_def Let_def sample_defs)

text \<open>
  C2, amended: when the lookup of \<open>create_hold\<close> finds no row for the key and another
  session commits a row with that key before the insert, the insert fails with the
  uniqueness violation, the handler does not read the row again, the violation reaches
  the caller as a server error (500), and the request adds no row.
\<close>

theorem create_hold_raced_violation:
  assumes "body_expiresAt body = None
             \<or> (\<exists>t. body_expiresAt body = Some (Aware t) \<and> app_now e < t)"
    and "client_exists d cid"
    and "find_by_idempotency_key d ik = None"
    and "ik \<in> set (map idempotency_key others)"
  shows "create_hold_raced d others e cid body ik pr
           = (Inl IntegrityError, d\<lparr>payment_hold := payment_hold d @ others\<rparr>)
         \<and> status_code IntegrityError = 500"
  using assms
  by (auto simp: create_hold_raced_def check_expiresAt_def create_hold_insert_def
        insert_hold_def Let_def split: option.splits datetime.splits)

theorem create_hold_raced_violation_witness:
  "body_expiresAt sample_body = Some (Aware 200)
   \<and> app_now sample_env < 200
   \<and> client_exists empty_db 10
   \<and> find_by_idempotency_key empty_db ''K1'' = None
   \<and> ''K1'' \<in> set (map idempotency_key [fraud_row])
   \<and> create_hold_raced empty_db [fraud_row] sample_env 10 sample_body ''K1'' ops_principal
       = (Inl IntegrityError, empty_db\<lparr>payment_hold := payment_hold empty_db @ [fraud_row]\<rparr>)"
proof -
  have h1: "body_expiresAt sample_body = None
      \<or> (\<exists>t. body_expiresAt sample_body = Some (Aware t) \<and> app_now sample_env < t)"
    by (simp add: sample_defs)
  have h2: "client_exists empty_db 10" by (simp add: client_exists_def sample_defs)
  have h3: "find_by_idempotency_key empty_db ''K1'' = None"
    by (simp add: find_by_idempotency_key_def sample_defs)
  have h4: "''K1'' \<in> set (map idempotency_key [fraud_row])" by (simp add: sample_defs)
  show ?thesis
    using create_hold_raced_violation[OF h1 h2 h3 h4, of ops_principal] h2 h3 h4
    by (simp add: sample_defs)
qed

subsection \<open>C3: release\<close>

text \<open>
  C3: \<open>release_hold\<close> answers 404 (NotFound) when the client has no hold with the given
  identifier and 409 (Conflict) when that hold is not \<open>ACTIVE\<close>; otherwise it sets the
  status to \<open>RELEASED\<close>, \<open>released_at\<close> to the current time of the database,
  \<open>released_by\<close> to the subject of the principal and \<open>release_reason\<close> to the reason of
  the request (null without a body), changes no other row and no other column, and
  returns the updated hold. The comment of the release body has no effect on the result
  or on the datastore. \<open>hold_id\<close> is the primary key of the table.
\<close>

theorem release_hold_spec:
  "((\<forall>r\<in>set (payment_hold d). \<not> (client_id r = cid \<and> hold_id r = hid)) \<longrightarrow>
      release_hold d e cid hid body pr = (Inl (HTTPException 404 ''Not found''), d))
   \<and> (pk_unique d \<and> row \<in> set (payment_hold d) \<and> client_id row = cid \<and> hold_id row = hid
        \<and> status row \<noteq> ACTIVE \<longrightarrow>
      release_hold d e cid hid body pr = (Inl (HTTPException 409 ''Already closed''), d))
   \<and> (pk_unique d \<and> row \<in> set (payment_hold d) \<and> client_id row = cid \<and> hold_id row = hid
        \<and> status row = ACTIVE \<longrightarrow>
      (let row' = row\<lparr> status := RELEASED,
                       released_at := Some (db_now e),
                       released_by := Some (sub pr),
                       release_reason := (case body of None \<Rightarrow> None | Some b \<Rightarrow> reason b) \<rparr>
       in release_hold d e cid hid body pr =
            (Inr (row_to_hold row'),
             d\<lparr>payment_hold := map (\<lambda>r. if r = row then row' else r) (payment_hold d)\<rparr>)))
   \<and> release_hold d e cid hid (Some (b\<lparr>release_comment := c\<rparr>)) pr
       = release_hold d e cid hid (Some b) pr
   \<and> is_NotFound (HTTPException 404 ''Not found'')
   \<and> is_Conflict (HTTPException 409 ''Already closed'')"
proof -
  have not_found: "(\<forall>r\<in>set (payment_hold d). \<not> (client_id r = cid \<and> hold_id r = hid)) \<longrightarrow>
      release_hold d e cid hid body pr = (Inl (HTTPException 404 ''Not found''), d)"
    using release_hold_not_found[of d cid hid e body pr] by blast
  have conflict: "pk_unique d \<and> row \<in> set (payment_hold d) \<and> client_id row = cid
        \<and> hold_id row = hid \<and> status row \<noteq> ACTIVE \<longrightarrow>
      release_hold d e cid hid body pr = (Inl (HTTPException 409 ''Already closed''), d)"
    using release_hold_conflict[of d row cid hid e body pr] by blast
  have released: "pk_unique d \<and> row \<in> set (payment_hold d) \<and> client_id row = cid
        \<and> hold_id row = hid \<and> status row = ACTIVE \<longrightarrow>
      (let row' = row\<lparr> status := RELEASED,
                       released_at := Some (db_now e),
                       released_by := Some (sub pr),
                       release_reason := (case body of None \<Rightarrow> None | Some b \<Rightarrow> reason b) \<rparr>
       in release_hold d e cid hid body pr =
            (Inr (row_to_hold row'),
             d\<lparr>payment_hold := map (\<lambda>r. if r = row then row' else r) (payment_hold d)\<rparr>))"
    using release_hold_ok[of d row cid hid e body pr]
    by (simp add: release_row_def Let_def)
  show ?thesis
    using not_found conflict released release_hold_comment[where b = b and c = c]
    by (simp add: is_NotFound_def is_Conflict_def)
qed

theorem release_hold_spec_witness:
  "release_hold sample_db later_env 10 9 (Some sample_release) ops_principal
     = (Inl (HTTPException 404 ''Not found''), sample_db)
   \<and> release_hold sample_db later_env 11 1 (Some sample_release) ops_principal
     = (Inl (HTTPException 404 ''Not found''), sample_db)
   \<and> release_hold sample_db later_env 10 2 (Some sample_release) ops_principal
     = (Inl (HTTPException 409 ''Already closed''), sample_db)
   \<and> release_hold sample_db later_env 10 1 (Some sample_release) ops_principal
     = (Inr (row_to_hold (fraud_row\<lparr> status := RELEASED, released_at := Some 151,
                                     released_by := Some ''user:ops1'',
                                     release_reason := Some ''cleared'' \<rparr>)),
        sample_db\<lparr>payment_hold :=
          [fraud_row\<lparr> status := RELEASED, released_at := Some 151,
                       released_by := Some ''user:ops1'',
                       release_reason := Some ''cleared'' \<rparr>, details_row]\<rparr>)"
proof -
  have pk: "pk_unique sample_db" by (simp add: pk_unique_def sample_defs)
  have a: "release_hold sample_db later_env 10 9 (Some sample_release) ops_principal
     = (Inl (HTTPException 404 ''Not found''), sample_db)"
    using release_hold_spec[of sample_db 10 9 later_env "Some sample_release" ops_principal]
    by (simp add: sample_defs)
  have b: "release_hold sample_db later_env 11 1 (Some sample_release) ops_principal
     = (Inl (HTTPException 404 ''Not found''), sample_db)"
    using release_hold_spec[of sample_db 11 1 later_env "Some sample_release" ops_principal]
    by (simp add: sample_defs)
  have c: "release_hold sample_db later_env 10 2 (Some sample_release) ops_principal
     = (Inl (HTTPException 409 ''Already closed''), sample_db)"
    using pk release_hold_spec[of sample_db 10 2 later_env "Some sample_release"
        ops_principal details_row]
    by (simp add: sample_defs)
  have d: "release_hold sample_db later_env 10 1 (Some sample_release) ops_principal
     = (Inr (row_to_hold (fraud_row\<lparr> status := RELEASED, released_at := Some 151,
                                     released_by := Some ''user:ops1'',
                                     release_reason := Some ''cleared'' \<rparr>)),
        sample_db\<lparr>payment_hold :=
          [fraud_row\<lparr> status := RELEASED, released_at := Some 151,
                       released_by := Some ''user:ops1'',
                       release_reason := Some ''cleared'' \<rparr>, details_row]\<rparr>)"
    using pk release_hold_spec[of sample_db 10 1 later_env "Some sample_release"
        ops_principal fraud_row]
    by (simp add: sample_defs Let_def)
  show ?thesis using a b c d by simp
qed

subsection \<open>C4: the release fields\<close>

text \<open>
  C4, as stated: on every reachable hold each of \<open>releasedAt\<close>, \<open>releasedBy\<close> and
  \<open>releaseReason\<close> is non-null exactly when the status is \<open>RELEASED\<close>. The reason of a
  release is optional: a hold created by \<open>create_hold\<close> and released without a body is
  \<open>RELEASED\<close> with a null \<open>releaseReason\<close>.
\<close>

theorem released_hold_without_reason:
  "release_hold
      (snd (create_hold empty_db sample_env 10 sample_body ''K3'' ops_principal))
      later_env 10 3 None ops_principal
     = (Inr released_without_reason,
        empty_db\<lparr>payment_hold :=
          [created_row\<lparr> status := RELEASED, released_at := Some 151,
                         released_by := Some ''user:ops1'', release_reason := None \<rparr>]\<rparr>)
   \<and> hstatus released_without_reason = RELEASED
   \<and> releaseReason released_without_reason = None"
proof -
  have "release_hold created_db later_env 10 3 None ops_principal
     = (Inr released_without_reason,
        empty_db\<lparr>payment_hold :=
          [created_row\<lparr> status := RELEASED, released_at := Some 151,
                         released_by := Some ''user:ops1'', release_reason := None \<rparr>]\<rparr>)"
    by (simp add: created_db_rows release_hold_def find_one_def update_release_def
          release_row_def row_to_hold_def Let_def sample_defs)
  then show ?thesis
    by (simp add: created_db_def released_without_reason_def)
qed

text \<open>
  C4, amended: on every hold stored in a reachable datastore, and on every hold that
  \<open>create_hold\<close> or \<open>release_hold\<close> returns from one, \<open>releasedAt\<close> and \<open>releasedBy\<close> are
  non-null if and only if the status is \<open>RELEASED\<close>, and \<open>releaseReason\<close> is null whenever
  the status is not \<open>RELEASED\<close>.
\<close>

theorem release_fields_invariant:
  assumes "reachable d"
  shows "(\<forall>r\<in>set (payment_hold d).
            (releasedAt (row_to_hold r) \<noteq> None \<longleftrightarrow> hstatus (row_to_hold r) = RELEASED)
          \<and> (releasedBy (row_to_hold r) \<noteq> None \<longleftrightarrow> hstatus (row_to_hold r) = RELEASED)
          \<and> (hstatus (row_to_hold r) \<noteq> RELEASED \<longrightarrow> releaseReason (row_to_hold r) = None))
       \<and> (\<forall>h d'. create_hold d e cid body ik pr = (Inr h, d')
              \<or> release_hold d e cid hid rbody pr = (Inr h, d') \<longrightarrow>
            (releasedAt h \<noteq> None \<longleftrightarrow> hstatus h = RELEASED)
          \<and> (releasedBy h \<noteq> None \<longleftrightarrow> hstatus h = RELEASED)
          \<and> (hstatus h \<noteq> RELEASED \<longrightarrow> releaseReason h = None))"
proof -
  have stored: "\<And>d r. reachable d \<Longrightarrow> r \<in> set (payment_hold d)
      \<Longrightarrow> release_fields_ok (row_to_hold r)"
    using reachable_holds_ok by (auto simp: holds_ok_def)
  have returned: "release_fields_ok h"
    if "create_hold d e cid body ik pr = (Inr h, d')
          \<or> release_hold d e cid hid rbody pr = (Inr h, d')" for h d'
    using that
  proof
    assume c: "create_hold d e cid body ik pr = (Inr h, d')"
    have "reachable d'"
      using reachable_create[OF assms, of e cid body ik pr] c by simp
    then show ?thesis using create_hold_returns_row[OF c] stored by blast
  next
    assume r: "release_hold d e cid hid rbody pr = (Inr h, d')"
    have "reachable d'"
      using reachable_release[OF assms, of e cid hid rbody pr] r by simp
    then show ?thesis using release_hold_returns_row[OF r] stored by blast
  qed
  have conv: "(releasedAt h \<noteq> None \<longleftrightarrow> hstatus h = RELEASED)
          \<and> (releasedBy h \<noteq> None \<longleftrightarrow> hstatus h = RELEASED)
          \<and> (hstatus h \<noteq> RELEASED \<longrightarrow> releaseReason h = None)"
    if "release_fields_ok h" for h
    using that by (auto simp: release_fields_ok_def)
  have p1: "\<forall>r\<in>set (payment_hold d).
            (releasedAt (row_to_hold r) \<noteq> None \<longleftrightarrow> hstatus (row_to_hold r) = RELEASED)
          \<and> (releasedBy (row_to_hold r) \<noteq> None \<longleftrightarrow> hstatus (row_to_hold r) = RELEASED)
          \<and> (hstatus (row_to_hold r) \<noteq> RELEASED \<longrightarrow> releaseReason (row_to_hold r) = None)"
    using conv stored[OF assms] by blast
  have p2: "\<forall>h d'. create_hold d e cid body ik pr = (Inr h, d')
              \<or> release_hold d e cid hid rbody pr = (Inr h, d') \<longrightarrow>
            (releasedAt h \<noteq> None \<longleftrightarrow> hstatus h = RELEASED)
          \<and> (releasedBy h \<noteq> None \<longleftrightarrow> hstatus h = RELEASED)
          \<and> (hstatus h \<noteq> RELEASED \<longrightarrow> releaseReason h = None)"
    using conv returned by blast
  show ?thesis by (rule conjI[OF p1 p2])
qed

theorem release_fields_invariant_witness:
  "reachable released_db
   \<and> payment_hold released_db = [released_row]
   \<and> hstatus (row_to_hold released_row) = RELEASED
   \<and> releasedAt (row_to_hold released_row) = Some 151
   \<and> releasedBy (row_to_hold released_row) = Some ''user:ops1''"
proof -
  have rows: "payment_hold released_db = [released_row]"
    by (simp add: released_db_rows)
  have "(releasedAt (row_to_hold released_row) \<noteq> None
           \<longleftrightarrow> hstatus (row_to_hold released_row) = RELEASED)
      \<and> (releasedBy (row_to_hold released_row) \<noteq> None
           \<longleftrightarrow> hstatus (row_to_hold released_row) = RELEASED)"
    using release_fields_invariant[OF released_db_reachable] rows by simp
  then show ?thesis
    using released_db_reachable rows by (simp add: row_to_hold_def sample_defs)
qed

subsection \<open>C5: check\<close>

text \<open>
  C5: \<open>check_hold\<close> reports \<open>blocked\<close> exactly when the client has a hold with status
  \<open>ACTIVE\<close>; the kind is \<open>FRAUD\<close> when one of the client's active holds has the type
  \<open>FRAUD_SUSPECT\<close>, \<open>NON_FRAUD\<close> when there are active holds and none has that type, and
  \<open>NONE\<close> when there is no active hold; \<open>activeHolds\<close> lists all active holds of the
  client.
\<close>

theorem check_hold_spec:
  "blocked (check_hold d cid)
     = (\<exists>r\<in>set (payment_hold d). client_id r = cid \<and> status r = ACTIVE)
   \<and> kind (check_hold d cid)
     = (if \<exists>r\<in>set (payment_hold d).
             client_id r = cid \<and> status r = ACTIVE \<and> type r = FRAUD_SUSPECT
        then FRAUD
        else if \<exists>r\<in>set (payment_hold d). client_id r = cid \<and> status r = ACTIVE
        then NON_FRAUD
        else NONE)
   \<and> activeHolds (check_hold d cid)
     = map row_to_hold
         (filter (\<lambda>r. client_id r = cid \<and> status r = ACTIVE) (payment_hold d))"
proof -
  have b: "blocked (check_hold d cid)
     = (\<exists>r\<in>set (payment_hold d). client_id r = cid \<and> status r = ACTIVE)"
    by (auto simp: check_hold_def select_active_by_client_def Let_def filter_empty_conv)
  have k: "kind (check_hold d cid)
     = (if \<exists>r\<in>set (payment_hold d).
             client_id r = cid \<and> status r = ACTIVE \<and> type r = FRAUD_SUSPECT
        then FRAUD
        else if \<exists>r\<in>set (payment_hold d). client_id r = cid \<and> status r = ACTIVE
        then NON_FRAUD
        else NONE)"
    by (auto simp: check_hold_def select_active_by_client_def Let_def filter_empty_conv
          image_iff)
  have a: "activeHolds (check_hold d cid)
     = map row_to_hold
         (filter (\<lambda>r. client_id r = cid \<and> status r = ACTIVE) (payment_hold d))"
    by (simp add: check_hold_def select_active_by_client_def Let_def)
  show ?thesis using b k a by simp
qed

theorem check_hold_spec_witness:
  "check_hold sample_db 10
     = \<lparr> blocked = True, kind = FRAUD, activeHolds = [row_to_hold fraud_row] \<rparr>
   \<and> check_hold sample_db 11 = \<lparr> blocked = False, kind = NONE, activeHolds = [] \<rparr>"
proof -
  have "blocked (check_hold sample_db 10) = True
      \<and> kind (check_hold sample_db 10) = FRAUD
      \<and> activeHolds (check_hold sample_db 10) = [row_to_hold fraud_row]"
    using check_hold_spec[of sample_db 10] by (simp add: sample_defs)
  moreover have "blocked (check_hold sample_db 11) = False
      \<and> kind (check_hold sample_db 11) = NONE
      \<and> activeHolds (check_hold sample_db 11) = []"
    using check_hold_spec[of sample_db 11] by (simp add: sample_defs)
  ultimately show ?thesis
    by (cases "check_hold sample_db 10"; cases "check_hold sample_db 11") simp
qed

subsection \<open>C6: validation of a create request\<close>

text \<open>
  C6 says that \<open>create_hold\<close> answers 422 (ValidationError) whenever \<open>expiresAt\<close> is
  present and not strictly in the future, and whenever the client does not exist. For a
  timezone-aware or absent \<open>expiresAt\<close> this is \<open>create_hold_validation_aware\<close>. A naive
  \<open>expiresAt\<close> (a timestamp without offset, which the body model accepts) makes the
  comparison with \<open>_now()\<close> raise \<open>TypeError\<close>: the request ends in a server error (500)
  instead of 422, both for a past wall-clock time with an existing client (10) and for
  an unknown client (99).
\<close>

theorem create_hold_naive_expiry_type_error:
  "body_expiresAt naive_body = Some (Naive 90)
   \<and> create_hold sample_db sample_env 10 naive_body ''K9'' ops_principal
       = (Inl TypeError, sample_db)
   \<and> create_hold sample_db sample_env 99 naive_body ''K9'' ops_principal
       = (Inl TypeError, sample_db)
   \<and> status_code TypeError = 500
   \<and> is_ValidationError TypeError = False"
  by (simp add: create_hold_def check_expiresAt_def is_ValidationError_def sample_defs)

subsection \<open>C7: list\<close>

text \<open>
  C7: \<open>list_holds\<close> returns exactly the holds of the client whose status equals the
  filter when the filter is \<open>ACTIVE\<close> or \<open>RELEASED\<close>, and all holds of the client when the
  filter is \<open>ALL\<close> (equality of multisets: every such hold, as often as it is stored, and
  nothing else), in each case ordered by creation time, newest first.
\<close>

theorem list_holds_spec:
  "mset (items (list_holds d cid FilterACTIVE))
     = image_mset row_to_hold
         (filter_mset (\<lambda>r. client_id r = cid \<and> status r = ACTIVE) (mset (payment_hold d)))
   \<and> mset (items (list_holds d cid FilterRELEASED))
     = image_mset row_to_hold
         (filter_mset (\<lambda>r. client_id r = cid \<and> status r = RELEASED) (mset (payment_hold d)))
   \<and> mset (items (list_holds d cid FilterALL))
     = image_mset row_to_hold
         (filter_mset (\<lambda>r. client_id r = cid) (mset (payment_hold d)))
   \<and> sorted_wrt (\<lambda>a b. createdAt b \<le> createdAt a) (items (list_holds d cid st))"
proof -
  have active: "mset (items (list_holds d cid FilterACTIVE))
     = image_mset row_to_hold
         (filter_mset (\<lambda>r. client_id r = cid \<and> status r = ACTIVE) (mset (payment_hold d)))"
    by (simp add: list_holds_def select_by_client_status_def order_by_created_at_desc_mset)
  have released: "mset (items (list_holds d cid FilterRELEASED))
     = image_mset row_to_hold
         (filter_mset (\<lambda>r. client_id r = cid \<and> status r = RELEASED) (mset (payment_hold d)))"
    by (simp add: list_holds_def select_by_client_status_def order_by_created_at_desc_mset)
  have all: "mset (items (list_holds d cid FilterALL))
     = image_mset row_to_hold
         (filter_mset (\<lambda>r. client_id r = cid) (mset (payment_hold d)))"
    by (simp add: list_holds_def select_by_client_def order_by_created_at_desc_mset)
  have ordered: "sorted_wrt (\<lambda>a b. createdAt b \<le> createdAt a) (items (list_holds d cid st))"
    by (cases st)
       (simp_all add: list_holds_def select_by_client_def select_by_client_status_def
          items_sorted)
  show ?thesis using active released all ordered by simp
qed

theorem list_holds_spec_witness:
  "mset (items (list_holds sample_db 10 FilterALL))
     = {#row_to_hold fraud_row, row_to_hold details_row#}
   \<and> mset (items (list_holds sample_db 10 FilterRELEASED)) = {#row_to_hold details_row#}
   \<and> sorted_wrt (\<lambda>a b. createdAt b \<le> createdAt a)
        (items (list_holds sample_db 10 FilterALL))
   \<and> items (list_holds sample_db 10 FilterALL)
       = [row_to_hold details_row, row_to_hold fraud_row]"
proof -
  have "items (list_holds sample_db 10 FilterALL)
       = [row_to_hold details_row, row_to_hold fraud_row]"
    by (simp add: list_holds_def select_by_client_def order_by_created_at_desc_def
          sample_defs)
  then show ?thesis
    using list_holds_spec[of sample_db 10 FilterALL]
    by (simp add: sample_defs)
qed

subsection \<open>C8: the role gate\<close>

text \<open>
  C8: the role check succeeds exactly when the roles of the principal intersect the
  required roles, and answers 403 (Forbidden) otherwise. Each route runs it with its own
  required role (\<open>ops.block:create\<close> for create, \<open>ops.block:read\<close> for list, check and get,
  \<open>ops.block:release\<close> for release) before the handler: without the role the answer is
  403 and the datastore is unchanged, whatever the path parameters and the body are;
  with the role the answer is the handler's.
\<close>

theorem role_gate_spec:
  "(require_roles required pr = Inr pr \<longleftrightarrow> set required \<inter> set (roles pr) \<noteq> {})
   \<and> (set required \<inter> set (roles pr) = {} \<longrightarrow>
        require_roles required pr = Inl (HTTPException 403 ''Forbidden: insufficient role''))
   \<and> is_Forbidden (HTTPException 403 ''Forbidden: insufficient role'')
   \<and> (get_principal decode token = Inr pr \<longrightarrow>
        create_hold_route decode token d e cid body ik
          = (if ''ops.block:create'' \<in> set (roles pr) then create_hold d e cid body ik pr
             else (Inl (HTTPException 403 ''Forbidden: insufficient role''), d))
      \<and> list_holds_route decode token d cid st
          = (if ''ops.block:read'' \<in> set (roles pr) then Inr (list_holds d cid st)
             else Inl (HTTPException 403 ''Forbidden: insufficient role''))
      \<and> check_hold_route decode token d cid
          = (if ''ops.block:read'' \<in> set (roles pr) then Inr (check_hold d cid)
             else Inl (HTTPException 403 ''Forbidden: insufficient role''))
      \<and> get_hold_route decode token d cid hid
          = (if ''ops.block:read'' \<in> set (roles pr) then get_hold d cid hid
             else Inl (HTTPException 403 ''Forbidden: insufficient role''))
      \<and> release_hold_route decode token d e cid hid rbody
          = (if ''ops.block:release'' \<in> set (roles pr) then release_hold d e cid hid rbody pr
             else (Inl (HTTPException 403 ''Forbidden: insufficient role''), d)))"
proof -
  have gate: "require_roles required pr =
     (if set required \<inter> set (roles pr) \<noteq> {} then Inr pr
      else Inl (HTTPException 403 ''Forbidden: insufficient role''))" for required
    by (auto simp: require_roles_def list_ex_iff)
  have routes: "get_principal decode token = Inr pr \<longrightarrow>
        create_hold_route decode token d e cid body ik
          = (if ''ops.block:create'' \<in> set (roles pr) then create_hold d e cid body ik pr
             else (Inl (HTTPException 403 ''Forbidden: insufficient role''), d))
      \<and> list_holds_route decode token d cid st
          = (if ''ops.block:read'' \<in> set (roles pr) then Inr (list_holds d cid st)
             else Inl (HTTPException 403 ''Forbidden: insufficient role''))
      \<and> check_hold_route decode token d cid
          = (if ''ops.block:read'' \<in> set (roles pr) then Inr (check_hold d cid)
             else Inl (HTTPException 403 ''Forbidden: insufficient role''))
      \<and> get_hold_route decode token d cid hid
          = (if ''ops.block:read'' \<in> set (roles pr) then get_hold d cid hid
             else Inl (HTTPException 403 ''Forbidden: insufficient role''))
      \<and> release_hold_route decode token d e cid hid rbody
          = (if ''ops.block:release'' \<in> set (roles pr) then release_hold d e cid hid rbody pr
             else (Inl (HTTPException 403 ''Forbidden: insufficient role''), d))"
    by (simp add: create_hold_route_def list_holds_route_def check_hold_route_def
          get_hold_route_def release_hold_route_def depends_require_roles_def gate)
  have iff: "require_roles required pr = Inr pr \<longleftrightarrow> set required \<inter> set (roles pr) \<noteq> {}"
    by (simp add: gate)
  have forbidden: "set required \<inter> set (roles pr) = {} \<longrightarrow>
        require_roles required pr = Inl (HTTPException 403 ''Forbidden: insufficient role'')"
    by (simp add: gate)
  show ?thesis
    using iff forbidden routes by (simp add: is_Forbidden_def)
qed

theorem role_gate_spec_witness:
  "get_principal sample_tokens (Some ''tok-read'') = Inr reader_principal
   \<and> require_roles [''ops.block:create''] reader_principal
       = Inl (HTTPException 403 ''Forbidden: insufficient role'')
   \<and> require_roles [''ops.block:read''] reader_principal = Inr reader_principal
   \<and> create_hold_route sample_tokens (Some ''tok-read'') sample_db sample_env 10 past_body ''K9''
       = (Inl (HTTPException 403 ''Forbidden: insufficient role''), sample_db)
   \<and> release_hold_route sample_tokens (Some ''tok-read'') sample_db later_env 10 1 None
       = (Inl (HTTPException 403 ''Forbidden: insufficient role''), sample_db)
   \<and> check_hold_route sample_tokens (Some ''tok-read'') sample_db 10
       = Inr (check_hold sample_db 10)"
proof -
  have p: "get_principal sample_tokens (Some ''tok-read'') = Inr reader_principal"
    by (simp add: get_principal_def sample_defs)
  have r: "roles reader_principal = [''ops.block:read'']"
    by (simp add: sample_defs)
  have a: "require_roles [''ops.block:create''] reader_principal
       = Inl (HTTPException 403 ''Forbidden: insufficient role'')"
    using role_gate_spec[of "[''ops.block:create'']" reader_principal] r by simp
  have b: "require_roles [''ops.block:read''] reader_principal = Inr reader_principal"
    using role_gate_spec[of "[''ops.block:read'']" reader_principal] r by simp
  have c: "create_hold_route sample_tokens (Some ''tok-read'') sample_db sample_env 10 past_body ''K9''
       = (Inl (HTTPException 403 ''Forbidden: insufficient role''), sample_db)
   \<and> release_hold_route sample_tokens (Some ''tok-read'') sample_db later_env 10 1 None
       = (Inl (HTTPException 403 ''Forbidden: insufficient role''), sample_db)
   \<and> check_hold_route sample_tokens (Some ''tok-read'') sample_db 10
       = Inr (check_hold sample_db 10)"
    using role_gate_spec[where decode = sample_tokens and token = "Some ''tok-read''"
        and pr = reader_principal and d = sample_db and cid = 10] p r
    by simp
  show ?thesis using p a b c by simp
qed

subsection \<open>C9: token verification\<close>

text \<open>
  C9: \<open>get_principal\<close> answers 401 (Unauthorized) when the request has no bearer token
  and when decoding the token fails (malformed, badly signed or expired). When decoding
  succeeds, the subject of the principal is \<open>unknown\<close> if the payload has no \<open>sub\<close> claim,
  and the roles are empty if it has no \<open>roles\<close> claim; claims that are present are
  taken over.
\<close>

theorem get_principal_spec:
  "(\<exists>x. get_principal decode None = Inl x \<and> is_Unauthorized x)
   \<and> (decode c = None \<longrightarrow>
        (\<exists>x. get_principal decode (Some c) = Inl x \<and> is_Unauthorized x))
   \<and> (decode c = Some pl \<and> claim_roles pl = None \<longrightarrow>
        get_principal decode (Some c)
          = Inr \<lparr> sub = (case claim_sub pl of None \<Rightarrow> ''unknown'' | Some s \<Rightarrow> s),
                  roles = [] \<rparr>)
   \<and> (decode c = Some pl \<and> claim_roles pl = Some (RolesList rs) \<longrightarrow>
        get_principal decode (Some c)
          = Inr \<lparr> sub = (case claim_sub pl of None \<Rightarrow> ''unknown'' | Some s \<Rightarrow> s),
                  roles = rs \<rparr>)
   \<and> (decode c = Some pl \<and> claim_sub pl = None \<and> claim_roles pl = None \<longrightarrow>
        get_principal decode (Some c) = Inr \<lparr> sub = ''unknown'', roles = [] \<rparr>)"
  by (auto simp: get_principal_def is_Unauthorized_def)

theorem get_principal_spec_witness:
  "get_principal sample_tokens None = Inl (HTTPException 401 ''Missing bearer token'')
   \<and> sample_tokens ''tok-forged'' = None
   \<and> is_Unauthorized (HTTPException 401 ''Invalid token'')
   \<and> get_principal sample_tokens (Some ''tok-forged'') = Inl (HTTPException 401 ''Invalid token'')
   \<and> sample_tokens ''tok-bare'' = Some bare_payload
   \<and> get_principal sample_tokens (Some ''tok-bare'') = Inr \<lparr> sub = ''unknown'', roles = [] \<rparr>
   \<and> get_principal sample_tokens (Some ''tok-read'') = Inr reader_principal"
proof -
  have forged: "sample_tokens ''tok-forged'' = None" by (simp add: sample_defs)
  have bare: "sample_tokens ''tok-bare'' = Some bare_payload" by (simp add: sample_defs)
  have reader: "sample_tokens ''tok-read'' = Some reader_payload" by (simp add: sample_defs)
  have a: "\<exists>x. get_principal sample_tokens (Some ''tok-forged'') = Inl x \<and> is_Unauthorized x"
    using get_principal_spec[of sample_tokens "''tok-forged''"] forged by simp
  have b: "get_principal sample_tokens (Some ''tok-bare'') = Inr \<lparr> sub = ''unknown'', roles = [] \<rparr>"
    using get_principal_spec[of sample_tokens "''tok-bare''" bare_payload] bare
    by (simp add: bare_payload_def)
  have c: "get_principal sample_tokens (Some ''tok-read'') = Inr reader_principal"
    using get_principal_spec[of sample_tokens "''tok-read''" reader_payload
        "[''ops.block:read'']"] reader
    by (simp add: reader_payload_def reader_principal_def)
  have d: "get_principal sample_tokens (Some ''tok-forged'') = Inl (HTTPException 401 ''Invalid token'')"
    using forged by (simp add: get_principal_def)
  have e: "get_principal sample_tokens None = Inl (HTTPException 401 ''Missing bearer token'')"
    by (simp add: get_principal_def)
  show ?thesis using a b c d e forged bare by (simp add: is_Unauthorized_def)
qed

subsection \<open>C10: the idempotency lookup ignores the client\<close>

text \<open>
  C10: the lookup of \<open>create_hold\<close> selects by the idempotency key alone. For every stored
  hold with key \<open>ik\<close>, a create request with that key under another client (an existing
  one, with a valid \<open>expiresAt\<close>) returns the stored hold, whose \<open>clientId\<close> differs from
  the client of the request, and leaves the datastore unchanged.
\<close>

theorem create_hold_replay_other_client:
  assumes "ik_unique d"
    and "row \<in> set (payment_hold d)"
    and "idempotency_key row = ik"
    and "client_id row \<noteq> cid"
    and "client_exists d cid"
    and "body_expiresAt body = None
           \<or> (\<exists>t. body_expiresAt body = Some (Aware t) \<and> app_now e < t)"
  shows "find_by_idempotency_key d ik = Some row
         \<and> create_hold d e cid body ik pr = (Inr (row_to_hold row), d)
         \<and> clientId (row_to_hold row) \<noteq> cid
         \<and> payment_hold (snd (create_hold d e cid body ik pr)) = payment_hold d"
proof -
  have found: "find_by_idempotency_key d ik = Some row"
    by (rule find_by_idempotency_key_unique[OF assms(1-3)])
  have replay: "create_hold d e cid body ik pr = (Inr (row_to_hold row), d)"
    by (rule create_hold_replay[OF assms(6,5) found])
  have other: "clientId (row_to_hold row) \<noteq> cid"
    using assms(4) by (simp add: row_to_hold_def)
  show ?thesis using found replay other by simp
qed

theorem create_hold_replay_other_client_witness:
  "ik_unique sample_db
   \<and> fraud_row \<in> set (payment_hold sample_db)
   \<and> idempotency_key fraud_row = ''K1''
   \<and> client_id fraud_row = 10
   \<and> client_exists sample_db 11
   \<and> body_expiresAt sample_body = Some (Aware 200)
   \<and> app_now sample_env < 200
   \<and> create_hold sample_db sample_env 11 sample_body ''K1'' reader_principal
       = (Inr (row_to_hold fraud_row), sample_db)
   \<and> clientId (row_to_hold fraud_row) = 10"
proof -
  have h1: "ik_unique sample_db" by (simp add: ik_unique_def sample_defs)
  have h2: "fraud_row \<in> set (payment_hold sample_db)" by (simp add: sample_defs)
  have h3: "idempotency_key fraud_row = ''K1''" by (simp add: sample_defs)
  have h4: "client_id fraud_row \<noteq> 11" by (simp add: sample_defs)
  have h5: "client_exists sample_db 11" by (simp add: client_exists_def sample_defs)
  have h6: "body_expiresAt sample_body = None
      \<or> (\<exists>t. body_expiresAt sample_body = Some (Aware t) \<and> app_now sample_env < t)"
    by (simp add: sample_defs)
  show ?thesis
    using create_hold_replay_other_client[OF h1 h2 h3 h4 h5 h6, of reader_principal]
      h1 h2 h3 h5
    by (simp add: row_to_hold_def sample_defs)
qed

end
